theory Spec2Isabelle
  imports Complex_Main "HOL-Library.Char_ord" "HOL-Library.List_Lexorder"
begin

section \<open>Data model\<close>

text \<open>
  The four criticality labels. The source returns the Python strings
  \<^verbatim>\<open>'BAJO'\<close>, \<^verbatim>\<open>'MEDIO'\<close>, \<^verbatim>\<open>'ALTO'\<close> and the accented
  \<^verbatim>\<open>'CRITICO'\<close> (written with an acute accent on the first I); the constructor
  \<open>CRITICO\<close> stands for that last string.
\<close>

datatype label = BAJO | MEDIO | ALTO | CRITICO

text \<open>
  One row of the input DataFrame, restricted to the columns the training pipeline reads:
  \<^verbatim>\<open>'# Days before expiration'\<close>, \<^verbatim>\<open>'Active SOW workers'\<close>,
  \<^verbatim>\<open>'Latest maximum budget'\<close>, \<^verbatim>\<open>'supplier'\<close>, \<^verbatim>\<open>'Business Unit'\<close>,
  \<^verbatim>\<open>'Primary LOB'\<close> and \<^verbatim>\<open>'currency'\<close>. Integers are Python's unbounded
  integers; the budget is a real number (the source's float, without rounding).
\<close>

record sow_row =
  days_before_expiration :: int
  active_sow_workers :: int
  latest_maximum_budget :: real
  supplier :: string
  business_unit :: string
  primary_lob :: string
  currency :: string

section \<open>Label rule engine: \<^verbatim>\<open>classify\<close> (feature_engineering.py, lines 32-50)\<close>

definition classify :: "sow_row \<Rightarrow> label" where
  "classify row =
     (let days = days_before_expiration row;
          workers = active_sow_workers row
      in if days \<le> 30 \<and> workers > 0 then CRITICO
         else if (days \<le> 30 \<and> workers = 0) \<or> (31 \<le> days \<and> days \<le> 60 \<and> workers > 5) then ALTO
         else if 31 \<le> days \<and> days \<le> 90 then MEDIO
         else BAJO)"

text \<open>
  The rule table of the specification, written the way the specification words it: an
  ordered list of (condition, label) rules, the first rule whose condition holds decides,
  and \<open>BAJO\<close> is the label when no rule applies.
\<close>

fun first_match :: "((int \<Rightarrow> int \<Rightarrow> bool) \<times> label) list \<Rightarrow> label \<Rightarrow> int \<Rightarrow> int \<Rightarrow> label" where
  "first_match [] dflt d w = dflt"
| "first_match ((c, l) # rs) dflt d w = (if c d w then l else first_match rs dflt d w)"

definition spec_rules :: "((int \<Rightarrow> int \<Rightarrow> bool) \<times> label) list" where
  "spec_rules =
     [(\<lambda>d w. d \<le> 30 \<and> w > 0, CRITICO),
      (\<lambda>d w. (d \<le> 30 \<and> w = 0) \<or> (31 \<le> d \<and> d \<le> 60 \<and> w > 5), ALTO),
      (\<lambda>d w. 31 \<le> d \<and> d \<le> 90, MEDIO)]"

definition classify_spec :: "int \<Rightarrow> int \<Rightarrow> label" where
  "classify_spec d w = first_match spec_rules BAJO d w"

text \<open>A row with the given days and workers; the other columns do not matter to \<open>classify\<close>.\<close>

definition row_of :: "int \<Rightarrow> int \<Rightarrow> sow_row" where
  "row_of d w =
     \<lparr>days_before_expiration = d, active_sow_workers = w, latest_maximum_budget = 0,
      supplier = [], business_unit = [], primary_lob = [], currency = []\<rparr>"

section \<open>DataFrames, object references and errors\<close>

text \<open>Python exceptions that the modelled code can raise, as values.\<close>

datatype error =
  ValueError | KeyError | IndexError | AttributeError | UnpicklingError
  | FileNotFoundError | FileExistsError | IsADirectoryError | NotADirectoryError

text \<open>
  The fourteen columns that \<^verbatim>\<open>engineer_features\<close> adds, for one row, in the order
  of \<^verbatim>\<open>get_feature_columns\<close>. The last four are the columns
  \<^verbatim>\<open>supplier_encoded\<close>, \<^verbatim>\<open>Business Unit_encoded\<close>,
  \<^verbatim>\<open>Primary LOB_encoded\<close> and \<^verbatim>\<open>currency_encoded\<close>.
\<close>

record features =
  days_to_expire :: int
  is_expired :: int
  is_critical_window :: int
  is_high_priority_window :: int
  has_workers :: int
  worker_count :: int
  worker_criticality_score :: int
  budget_normalized :: real
  budget_per_worker :: real
  risk_score :: real
  supplier_encoded :: nat
  business_unit_encoded :: nat
  primary_lob_encoded :: nat
  currency_encoded :: nat

text \<open>
  A DataFrame: the input columns row by row, the column \<^verbatim>\<open>'Criticality'\<close> when it
  has been added, and the engineered columns when they have been added (\<open>None\<close>: the
  frame has no such column). The type fixes that the seven input columns are present and
  well typed.
\<close>

record dataframe =
  rows :: "sow_row list"
  Criticality :: "label list option"
  engineered :: "features list option"

text \<open>
  DataFrames are mutable objects that callers and callees share. The store holds every
  DataFrame object; a reference is its position in the store. A new object is allocated
  at the end, so its reference differs from every reference in use.
\<close>

type_synonym ref = nat
type_synonym store = "dataframe list"

section \<open>scikit-learn's LabelEncoder and StandardScaler\<close>

text \<open>
  The two preprocessing classes come from scikit-learn. \<^verbatim>\<open>LabelEncoder.fit_transform\<close>
  stores the sorted distinct values (\<^verbatim>\<open>classes_ = np.unique(y)\<close>) and encodes every
  value as its position in \<^verbatim>\<open>classes_\<close>; \<^verbatim>\<open>LabelEncoder.transform\<close> encodes with
  the stored \<^verbatim>\<open>classes_\<close> and raises \<^verbatim>\<open>ValueError\<close> ("y contains previously
  unseen labels") when a value is not among them.
\<close>

fun index_of :: "'a list \<Rightarrow> 'a \<Rightarrow> nat" where
  "index_of [] y = 0"
| "index_of (x # xs) y = (if x = y then 0 else Suc (index_of xs y))"

definition le_fit :: "string list \<Rightarrow> string list" where
  "le_fit ys = sort (remdups ys)"

definition le_transform :: "string list \<Rightarrow> string list \<Rightarrow> error + nat list" where
  "le_transform classes ys =
     (if list_all (\<lambda>y. y \<in> set classes) ys then Inr (map (index_of classes) ys)
      else Inl ValueError)"

definition le_fit_transform :: "string list \<Rightarrow> string list \<times> nat list" where
  "le_fit_transform ys = (le_fit ys, map (index_of (le_fit ys)) ys)"

text \<open>
  \<^verbatim>\<open>StandardScaler.fit\<close> computes, for every column, the mean, the population
  variance and the scale (the square root of the variance, replaced by 1 where the
  variance is 0); \<^verbatim>\<open>fit_transform\<close> raises \<^verbatim>\<open>ValueError\<close> on a matrix without
  rows and otherwise fits and returns the centred and scaled matrix. Numbers are real
  numbers here: floating-point rounding is not part of the model.
\<close>

text \<open>
  The fields stand for the attributes \<^verbatim>\<open>mean_\<close>, \<^verbatim>\<open>var_\<close> and
  \<^verbatim>\<open>scale_\<close> of a fitted scaler.
\<close>

record scaler_state =
  scaler_mean :: "real list"
  scaler_var :: "real list"
  scaler_scale :: "real list"

definition mean :: "real list \<Rightarrow> real" where
  "mean xs = sum_list xs / real (length xs)"

definition variance :: "real list \<Rightarrow> real" where
  "variance xs = sum_list (map (\<lambda>x. (x - mean xs)\<^sup>2) xs) / real (length xs)"

definition scaler_fit :: "real list list \<Rightarrow> scaler_state" where
  "scaler_fit X =
     (let cols = transpose X in
      \<lparr>scaler_mean = map mean cols,
       scaler_var = map variance cols,
       scaler_scale = map (\<lambda>c. if variance c = 0 then 1 else sqrt (variance c)) cols\<rparr>)"

definition scaler_transform :: "scaler_state \<Rightarrow> real list list \<Rightarrow> real list list" where
  "scaler_transform s X =
     map (\<lambda>r. map (\<lambda>(x, m, sd). (x - m) / sd) (zip r (zip (scaler_mean s) (scaler_scale s)))) X"

definition scaler_fit_transform :: "real list list \<Rightarrow> error + (scaler_state \<times> real list list)" where
  "scaler_fit_transform X =
     (if X = [] then Inl ValueError
      else Inr (scaler_fit X, scaler_transform (scaler_fit X) X))"

section \<open>\<^verbatim>\<open>SOWFeatureEngineering\<close> (feature_engineering.py)\<close>

text \<open>
  The instance state: \<^verbatim>\<open>self.label_encoders\<close>, a dictionary from a column name to
  its fitted encoder (represented by the encoder's \<^verbatim>\<open>classes_\<close>), and
  \<^verbatim>\<open>self.scaler\<close> (\<open>None\<close>: a \<^verbatim>\<open>StandardScaler()\<close> that has not been fitted).
\<close>

record fe_state =
  label_encoders :: "string \<rightharpoonup> string list"
  scaler :: "scaler_state option"

definition fe_init :: fe_state where
  "fe_init = \<lparr>label_encoders = Map.empty, scaler = None\<rparr>"

definition create_criticality_label :: "store \<Rightarrow> ref \<Rightarrow> store \<times> ref" where
  "create_criticality_label h df =
     (h[df := (h ! df)\<lparr>Criticality := Some (map classify (rows (h ! df)))\<rparr>], df)"

definition categorical_cols :: "string list" where
  "categorical_cols = [''supplier'', ''Business Unit'', ''Primary LOB'', ''currency'']"

text \<open>\<^verbatim>\<open>df[col].astype(str)\<close> for one of the categorical columns.\<close>

definition str_column :: "sow_row list \<Rightarrow> string \<Rightarrow> string list" where
  "str_column rs col =
     (if col = ''supplier'' then map supplier rs
      else if col = ''Business Unit'' then map business_unit rs
      else if col = ''Primary LOB'' then map primary_lob rs
      else map currency rs)"

text \<open>
  The loop over \<^verbatim>\<open>categorical_cols\<close>: a column without an encoder gets a new
  encoder, fitted on the column; a column with an encoder is transformed with it, and the
  \<^verbatim>\<open>ValueError\<close> of an unseen value ends the loop. The encoders fitted before the
  exception stay in \<^verbatim>\<open>self.label_encoders\<close>.
\<close>

fun encode_cols ::
  "(string \<rightharpoonup> string list) \<Rightarrow> sow_row list \<Rightarrow> string list \<Rightarrow> (string \<Rightarrow> nat list)
   \<Rightarrow> (error + (string \<Rightarrow> nat list)) \<times> (string \<rightharpoonup> string list)" where
  "encode_cols encs rs [] codes = (Inr codes, encs)"
| "encode_cols encs rs (col # cols) codes =
     (case encs col of
        None \<Rightarrow>
          (case le_fit_transform (str_column rs col) of
             (classes, cs) \<Rightarrow> encode_cols (encs(col \<mapsto> classes)) rs cols (codes(col := cs)))
      | Some classes \<Rightarrow>
          (case le_transform classes (str_column rs col) of
             Inl e \<Rightarrow> (Inl e, encs)
           | Inr cs \<Rightarrow> encode_cols encs rs cols (codes(col := cs))))"

definition bool_int :: "bool \<Rightarrow> int" where
  "bool_int b = (if b then 1 else 0)"

text \<open>The engineered columns of row \<open>i\<close>, given the four columns of codes.\<close>

definition feature_row :: "(string \<Rightarrow> nat list) \<Rightarrow> nat \<Rightarrow> sow_row \<Rightarrow> features" where
  "feature_row codes i r =
     (let days = days_before_expiration r;
          critical = bool_int (days \<le> 30);
          hw = bool_int (active_sow_workers r > 0);
          wc = active_sow_workers r
      in \<lparr>days_to_expire = days,
          is_expired = bool_int (days < 0),
          is_critical_window = critical,
          is_high_priority_window = bool_int (days > 30 \<and> days \<le> 60),
          has_workers = hw,
          worker_count = wc,
          worker_criticality_score = wc * critical,
          budget_normalized = latest_maximum_budget r / 1000000,
          budget_per_worker = (if wc > 0 then latest_maximum_budget r / real_of_int wc else 0),
          risk_score = real_of_int ((30 - days) * hw) * (1 + ln (1 + real_of_int wc)),
          supplier_encoded = codes ''supplier'' ! i,
          business_unit_encoded = codes ''Business Unit'' ! i,
          primary_lob_encoded = codes ''Primary LOB'' ! i,
          currency_encoded = codes ''currency'' ! i\<rparr>)"

text \<open>
  \<^verbatim>\<open>engineer_features\<close>: the first statement, \<^verbatim>\<open>df = df.copy()\<close>, allocates a new
  DataFrame object; every later assignment goes to the copy, and the copy's reference is
  returned. When an encoder raises, the copy is unreachable; the model leaves it in the
  store as it was copied.
\<close>

definition engineer_features :: "fe_state \<Rightarrow> store \<Rightarrow> ref \<Rightarrow> (error + ref) \<times> fe_state \<times> store" where
  "engineer_features self h df =
     (let copy = length h;
          h1 = h @ [h ! df];
          rs = rows (h1 ! copy)
      in case encode_cols (label_encoders self) rs categorical_cols (\<lambda>_. []) of
           (Inl e, encs) \<Rightarrow> (Inl e, self\<lparr>label_encoders := encs\<rparr>, h1)
         | (Inr codes, encs) \<Rightarrow>
             (Inr copy, self\<lparr>label_encoders := encs\<rparr>,
              h1[copy := (h1 ! copy)\<lparr>engineered :=
                   Some (map (\<lambda>(i, r). feature_row codes i r) (zip [0..<length rs] rs))\<rparr>]))"

text \<open>The row of the feature matrix \<^verbatim>\<open>df[feature_cols]\<close>, in \<^verbatim>\<open>get_feature_columns\<close> order.\<close>

definition feature_vector :: "features \<Rightarrow> real list" where
  "feature_vector f =
     [real_of_int (days_to_expire f), real_of_int (is_expired f),
      real_of_int (is_critical_window f), real_of_int (is_high_priority_window f),
      real_of_int (has_workers f), real_of_int (worker_count f),
      real_of_int (worker_criticality_score f), budget_normalized f, budget_per_worker f,
      risk_score f, real (supplier_encoded f), real (business_unit_encoded f),
      real (primary_lob_encoded f), real (currency_encoded f)]"

text \<open>
  \<^verbatim>\<open>prepare_for_training\<close>: labels the caller's frame, engineers the features on a
  copy, and fits the scaler on the feature matrix (\<^verbatim>\<open>self.scaler.fit_transform(X)\<close>).
  It returns the scaled matrix, the label column and the reference of the engineered copy.
\<close>

definition prepare_for_training ::
  "fe_state \<Rightarrow> store \<Rightarrow> ref \<Rightarrow> (error + (real list list \<times> label list \<times> ref)) \<times> fe_state \<times> store" where
  "prepare_for_training self h df =
     (case create_criticality_label h df of
        (h1, df1) \<Rightarrow>
          (case engineer_features self h1 df1 of
             (Inl e, self2, h2) \<Rightarrow> (Inl e, self2, h2)
           | (Inr df2, self2, h2) \<Rightarrow>
               (case (engineered (h2 ! df2), Criticality (h2 ! df2)) of
                  (Some fs, Some y) \<Rightarrow>
                    (case scaler_fit_transform (map feature_vector fs) of
                       Inl e \<Rightarrow> (Inl e, self2, h2)
                     | Inr (s, X_scaled) \<Rightarrow> (Inr (X_scaled, y, df2), self2\<lparr>scaler := Some s\<rparr>, h2))
                | _ \<Rightarrow> (Inl KeyError, self2, h2))))"

section \<open>The stratified split (train_criticality_model.py, lines 234-239)\<close>

text \<open>
  The script calls scikit-learn's
  \<^verbatim>\<open>train_test_split(X, y, test_size=0.2, random_state=42, stratify=y)\<close>. The
  function computes the sizes \<^verbatim>\<open>n_test = ceil(0.2 * n_samples)\<close> and
  \<^verbatim>\<open>n_train = n_samples - n_test\<close>, raises \<^verbatim>\<open>ValueError\<close> when the train part
  would be empty, and then, because \<^verbatim>\<open>stratify\<close> is given, raises
  \<^verbatim>\<open>ValueError\<close> when the least populated class has fewer than 2 members, when
  \<^verbatim>\<open>n_train\<close> is less than the number of classes, or when \<^verbatim>\<open>n_test\<close> is less
  than the number of classes; otherwise it returns a stratified split with parts of these
  sizes. The model returns the two sizes; which rows go where depends on the random
  generator and is not modelled. The floating-point product \<^verbatim>\<open>0.2 * n\<close> has the same
  ceiling as the exact product for every row count a dataset can have, so the ceiling is
  taken of the exact fifth.
\<close>

definition n_test_of :: "nat \<Rightarrow> nat" where
  "n_test_of n = (n + 4) div 5"

definition train_test_split :: "'a list \<Rightarrow> error + (nat \<times> nat)" where
  "train_test_split y =
     (let n_samples = length y;
          n_test = n_test_of n_samples;
          n_train = n_samples - n_test;
          classes = remdups y;
          n_classes = length classes
      in if n_train = 0 then Inl ValueError
         else if list_ex (\<lambda>c. count_list y c < 2) classes then Inl ValueError
         else if n_train < n_classes then Inl ValueError
         else if n_test < n_classes then Inl ValueError
         else Inr (n_train, n_test))"

section \<open>\<^verbatim>\<open>CriticalityClassifier\<close> (train_criticality_model.py)\<close>

text \<open>
  A fitted scikit-learn estimator, as far as the class reads it: the attribute
  \<^verbatim>\<open>feature_names_in_\<close> (\<open>None\<close>: the estimator has no such attribute) and the
  attribute \<^verbatim>\<open>feature_importances_\<close>.
\<close>

record estimator =
  feature_names_in :: "string list option"
  feature_importances :: "real list"

text \<open>
  The instance: \<^verbatim>\<open>self.model\<close> is \<open>None\<close> until \<^verbatim>\<open>train\<close> has run;
  \<^verbatim>\<open>self.metrics\<close> is a dictionary, kept as an association list.
\<close>

record classifier =
  model_type :: string
  model :: "estimator option"
  feature_engineer :: "fe_state option"
  training_date :: "string option"
  metrics :: "(string \<times> real) list"

definition classifier_init :: "string \<Rightarrow> classifier" where
  "classifier_init mt =
     \<lparr>model_type = mt, model = None, feature_engineer = None, training_date = None, metrics = []\<rparr>"

text \<open>The dictionary \<^verbatim>\<open>model_package\<close> that \<^verbatim>\<open>save_model\<close> pickles, key by key.\<close>

record model_package =
  pkg_model :: "estimator option"
  pkg_model_type :: string
  pkg_training_date :: "string option"
  pkg_metrics :: "(string \<times> real) list"
  pkg_feature_names :: "string list option"

text \<open>
  What a file holds, as far as the class writes and reads it: a pickled
  \<^verbatim>\<open>model_package\<close> or a JSON dump of the metrics.
\<close>

datatype file_content = Pickle model_package | Json "(string \<times> real) list"

text \<open>
  The operating system is a parameter of the model. The class reaches the file system
  through three calls: \<^verbatim>\<open>os.makedirs(path, exist_ok=True)\<close>, opening a path for
  writing and writing the content (\<^verbatim>\<open>joblib.dump\<close>, and \<^verbatim>\<open>open\<close> with
  \<^verbatim>\<open>json.dump\<close>), and reading a file back (\<^verbatim>\<open>joblib.load\<close>). Each may raise,
  for whatever reason the system has (a missing or empty directory part, a directory or a
  regular file in the way, permissions), and a failed call may still have changed the
  file system; so the two writing calls return the outcome together with the file system
  they leave. The type \<open>'fs\<close> is the state of the file system.
\<close>

record 'fs os_calls =
  makedirs :: "string \<Rightarrow> 'fs \<Rightarrow> (error + unit) \<times> 'fs"
  write_file :: "string \<Rightarrow> file_content \<Rightarrow> 'fs \<Rightarrow> (error + unit) \<times> 'fs"
  read_file :: "string \<Rightarrow> 'fs \<Rightarrow> error + file_content"

text \<open>
  \<^verbatim>\<open>os.path.dirname\<close>: the path up to and including its last slash, without the
  trailing slashes unless it consists of slashes only.
\<close>

definition dirname :: "string \<Rightarrow> string" where
  "dirname p =
     (let head = rev (dropWhile (\<lambda>c. c \<noteq> CHR ''/'') (rev p))
      in if head \<noteq> [] \<and> \<not> list_all (\<lambda>c. c = CHR ''/'') head
         then rev (dropWhile (\<lambda>c. c = CHR ''/'') (rev head))
         else head)"

text \<open>\<^verbatim>\<open>filepath.replace('.pkl', '_metrics.json')\<close>: every occurrence, from the left.\<close>

fun replace_pkl :: "string \<Rightarrow> string" where
  "replace_pkl [] = []"
| "replace_pkl (c # cs) =
     (if take 4 (c # cs) = ''.pkl'' then ''_metrics.json'' @ replace_pkl (drop 3 cs)
      else c # replace_pkl cs)"

text \<open>
  \<^verbatim>\<open>save_model\<close>: the directory part of the path is created, the package is built and
  dumped to \<^verbatim>\<open>filepath\<close>, and the metrics are dumped to the metrics file, in this
  order. An exception of one of the three calls ends the method and leaves what the
  earlier calls have written. The method has no other way to fail and does not look at
  \<^verbatim>\<open>self.model\<close> beyond \<^verbatim>\<open>hasattr(self.model, 'feature_names_in_')\<close>, which is
  false for \<^verbatim>\<open>None\<close>.
\<close>

definition save_model ::
  "'fs os_calls \<Rightarrow> classifier \<Rightarrow> string \<Rightarrow> 'fs \<Rightarrow> (error + unit) \<times> 'fs" where
  "save_model os self filepath fs =
     (case makedirs os (dirname filepath) fs of
        (Inl e, fs1) \<Rightarrow> (Inl e, fs1)
      | (Inr _, fs1) \<Rightarrow>
          (let model_package =
                 \<lparr>pkg_model = model self,
                  pkg_model_type = model_type self,
                  pkg_training_date = training_date self,
                  pkg_metrics = metrics self,
                  pkg_feature_names =
                    (case model self of None \<Rightarrow> None | Some m \<Rightarrow> feature_names_in m)\<rparr>
           in case write_file os filepath (Pickle model_package) fs1 of
                (Inl e, fs2) \<Rightarrow> (Inl e, fs2)
              | (Inr _, fs2) \<Rightarrow>
                  (let metrics_file = replace_pkl filepath
                   in write_file os metrics_file (Json (metrics self)) fs2)))"

text \<open>
  \<^verbatim>\<open>load_model\<close>: \<^verbatim>\<open>joblib.load\<close> raises when the file cannot be read or is not a
  pickle; the classifier is built from the package; the second \<^verbatim>\<open>print\<close> reads
  \<^verbatim>\<open>classifier.metrics['test_accuracy']\<close> and raises \<^verbatim>\<open>KeyError\<close> when the
  metrics have no such key.
\<close>

definition load_model :: "'fs os_calls \<Rightarrow> string \<Rightarrow> 'fs \<Rightarrow> error + classifier" where
  "load_model os filepath fs =
     (case read_file os filepath fs of
        Inl e \<Rightarrow> Inl e
      | Inr (Json _) \<Rightarrow> Inl UnpicklingError
      | Inr (Pickle model_package) \<Rightarrow>
          (let classifier =
                 (classifier_init (pkg_model_type model_package))
                   \<lparr>model := pkg_model model_package,
                    training_date := pkg_training_date model_package,
                    metrics := pkg_metrics model_package\<rparr>
           in case map_of (metrics classifier) ''test_accuracy'' of
                None \<Rightarrow> Inl KeyError
              | Some _ \<Rightarrow> Inr classifier))"

text \<open>
  \<^verbatim>\<open>np.argsort\<close> is a parameter of the model as well. What numpy promises of its
  result is \<open>is_argsort\<close>: every index once, the values in ascending order. The default
  sort is not stable, so where values are equal the order of their indices is not fixed.
\<close>

definition is_argsort :: "real list \<Rightarrow> nat list \<Rightarrow> bool" where
  "is_argsort xs idxs =
     (distinct idxs \<and> set idxs = {..<length xs} \<and> sorted (map (\<lambda>i. xs ! i) idxs))"

definition get_feature_columns :: "string list" where
  "get_feature_columns =
     [''days_to_expire'', ''is_expired'', ''is_critical_window'', ''is_high_priority_window'',
      ''has_workers'', ''worker_count'', ''worker_criticality_score'', ''budget_normalized'',
      ''budget_per_worker'', ''risk_score'', ''supplier_encoded'', ''Business Unit_encoded'',
      ''Primary LOB_encoded'', ''currency_encoded'']"

text \<open>
  \<^verbatim>\<open>_print_feature_importance\<close>: the indices
  \<^verbatim>\<open>np.argsort(importances)[::-1][:top_n]\<close>, and for each of them one printed line
  with its rank (from 1), the feature's name and its importance. The model returns the
  printed lines. \<^verbatim>\<open>self.model\<close> being \<^verbatim>\<open>None\<close> raises \<^verbatim>\<open>AttributeError\<close>, and
  an index out of range raises \<^verbatim>\<open>IndexError\<close>.
\<close>

definition top_indices :: "(real list \<Rightarrow> nat list) \<Rightarrow> real list \<Rightarrow> nat \<Rightarrow> nat list" where
  "top_indices argsort importances top_n = take top_n (rev (argsort importances))"

definition print_feature_importance ::
  "(real list \<Rightarrow> nat list) \<Rightarrow> classifier \<Rightarrow> string list \<Rightarrow> nat
   \<Rightarrow> error + (nat \<times> string \<times> real) list" where
  "print_feature_importance argsort self feature_names top_n =
     (case model self of
        None \<Rightarrow> Inl AttributeError
      | Some m \<Rightarrow>
          (let importances = feature_importances m;
               indices = top_indices argsort importances top_n
           in if list_ex (\<lambda>idx. length feature_names \<le> idx \<or> length importances \<le> idx) indices
              then Inl IndexError
              else Inr (map (\<lambda>(i, idx). (i, feature_names ! idx, importances ! idx))
                          (enumerate 1 indices))))"

section \<open>Example inputs\<close>

text \<open>
  Small frames for the concrete evaluations below: one row each, with the given supplier,
  days before expiration and workers; the remaining columns are the same in all of them.
\<close>

definition example_row :: "string \<Rightarrow> int \<Rightarrow> int \<Rightarrow> sow_row" where
  "example_row s d w =
     \<lparr>days_before_expiration = d, active_sow_workers = w, latest_maximum_budget = 1000,
      supplier = s, business_unit = ''Ops'', primary_lob = ''IT'', currency = ''USD''\<rparr>"

definition example_frame :: "string \<Rightarrow> int \<Rightarrow> int \<Rightarrow> dataframe" where
  "example_frame s d w = \<lparr>rows = [example_row s d w], Criticality = None, engineered = None\<rparr>"

text \<open>
  Two calls of \<^verbatim>\<open>prepare_for_training\<close> on one instance: the first on a frame whose
  contract expires in 28 days, the second, with the instance and the store the first call
  left, on a frame whose contract expires in 100 days.
\<close>

definition two_frames :: store where
  "two_frames = [example_frame ''Acme'' 28 0, example_frame ''Acme'' 100 0]"

definition first_call :: "(error + (real list list \<times> label list \<times> ref)) \<times> fe_state \<times> store" where
  "first_call = prepare_for_training fe_init two_frames 0"

definition second_call :: "(error + (real list list \<times> label list \<times> ref)) \<times> fe_state \<times> store" where
  "second_call = prepare_for_training (fst (snd first_call)) (snd (snd first_call)) 1"

text \<open>A label vector with four classes of two members each.\<close>

definition eight_labels :: "label list" where
  "eight_labels = [BAJO, BAJO, MEDIO, MEDIO, ALTO, ALTO, CRITICO, CRITICO]"

text \<open>
  A small file system for the evaluations below. A path, taken as it is written, is a
  directory or a regular file; the directory a relative path starts from and the root
  exist. It covers paths without \<^verbatim>\<open>.\<close> and \<^verbatim>\<open>..\<close> components, repeated slashes
  and links, and no failures other than those of a missing directory, a directory where a
  file is to be written, and a regular file where a directory is needed.
\<close>

datatype node = Directory | Regular file_content

type_synonym filesystem = "string \<rightharpoonup> node"

text \<open>The path and the paths of the directories above it, the outermost first.\<close>

fun dir_prefixes :: "string \<Rightarrow> string \<Rightarrow> string list" where
  "dir_prefixes acc [] = [acc]"
| "dir_prefixes acc (c # cs) =
     (if c = CHR ''/'' then acc # dir_prefixes (acc @ [c]) cs
      else dir_prefixes (acc @ [c]) cs)"

fun mkdirs :: "string list \<Rightarrow> filesystem \<Rightarrow> (error + unit) \<times> filesystem" where
  "mkdirs [] fs = (Inr (), fs)"
| "mkdirs (p # ps) fs =
     (case fs p of
        Some (Regular _) \<Rightarrow> (Inl (if ps = [] then FileExistsError else NotADirectoryError), fs)
      | _ \<Rightarrow> mkdirs ps (fs(p \<mapsto> Directory)))"

definition fs_makedirs :: "string \<Rightarrow> filesystem \<Rightarrow> (error + unit) \<times> filesystem" where
  "fs_makedirs d fs =
     (if d = [] then (Inl FileNotFoundError, fs)
      else mkdirs (filter (\<lambda>p. p \<noteq> []) (dir_prefixes [] d)) fs)"

definition fs_write :: "string \<Rightarrow> file_content \<Rightarrow> filesystem \<Rightarrow> (error + unit) \<times> filesystem" where
  "fs_write p c fs =
     (if p = [] then (Inl FileNotFoundError, fs)
      else if last p = CHR ''/'' \<or> fs p = Some Directory then (Inl IsADirectoryError, fs)
      else if dirname p = [] \<or> list_all (\<lambda>c. c = CHR ''/'') (dirname p)
              \<or> fs (dirname p) = Some Directory
      then (Inr (), fs(p \<mapsto> Regular c))
      else (case fs (dirname p) of
              Some (Regular _) \<Rightarrow> (Inl NotADirectoryError, fs)
            | _ \<Rightarrow> (Inl FileNotFoundError, fs)))"

definition fs_read :: "string \<Rightarrow> filesystem \<Rightarrow> error + file_content" where
  "fs_read p fs =
     (case fs p of
        None \<Rightarrow> Inl FileNotFoundError
      | Some Directory \<Rightarrow> Inl IsADirectoryError
      | Some (Regular c) \<Rightarrow> Inr c)"

definition example_os :: "filesystem os_calls" where
  "example_os = \<lparr>makedirs = fs_makedirs, write_file = fs_write, read_file = fs_read\<rparr>"

text \<open>
  The path the training script saves to, a trained classifier (with the instance attribute
  \<^verbatim>\<open>feature_engineer\<close> set as the script sets it before saving, and fourteen
  importances, no two of them equal), and \<^verbatim>\<open>save_model\<close> followed by
  \<^verbatim>\<open>load_model\<close> on the same path.
\<close>

definition model_path :: string where
  "model_path = ''/app/models/criticality_model.pkl''"

definition example_estimator :: estimator where
  "example_estimator =
     \<lparr>feature_names_in = Some get_feature_columns,
      feature_importances = [250 / 1000, 30 / 1000, 120 / 1000, 4 / 1000, 60 / 1000, 80 / 1000,
                             70 / 1000, 150 / 1000, 90 / 1000, 100 / 1000, 40 / 1000, 3 / 1000,
                             2 / 1000, 1 / 1000]\<rparr>"

definition trained_example :: classifier where
  "trained_example =
     \<lparr>model_type = ''random_forest'',
      model = Some example_estimator,
      feature_engineer = Some fe_init,
      training_date = Some ''2025-01-01 00:00:00'',
      metrics = [(''train_accuracy'', 1), (''test_accuracy'', 9 / 10),
                 (''train_size'', 80), (''test_size'', 20)]\<rparr>"

definition save_then_load ::
  "'fs os_calls \<Rightarrow> classifier \<Rightarrow> string \<Rightarrow> 'fs \<Rightarrow> error + classifier" where
  "save_then_load os self filepath fs =
     (case save_model os self filepath fs of
        (Inl e, fs') \<Rightarrow> Inl e
      | (Inr _, fs') \<Rightarrow> load_model os filepath fs')"

text \<open>
  One function that meets \<open>is_argsort\<close>, for the evaluations: insertion sort of the
  indices by their values.
\<close>

definition example_argsort :: "real list \<Rightarrow> nat list" where
  "example_argsort xs = sort_key (\<lambda>i. xs ! i) [0..<length xs]"

section \<open>Theorems\<close>

text \<open>
  C1. For every integer number of days and of workers (in particular every non-negative
  number of workers), \<open>classify\<close> returns one of the four labels, and it is the label
  the specification's first-match rule table gives: CRITICO if days \<le> 30 and workers > 0;
  otherwise ALTO if (days \<le> 30 and workers = 0) or (31 \<le> days \<le> 60 and workers > 5);
  otherwise MEDIO if 31 \<le> days \<le> 90; otherwise BAJO. The boundary table lists the label
  at every pair with days in -1, 0, 30, 31, 60, 61, 90, 91 and workers in 0, 1, 6.
\<close>

theorem classify_matches_rule_table:
  "classify row = classify_spec (days_before_expiration row) (active_sow_workers row)
   \<and> classify row \<in> {BAJO, MEDIO, ALTO, CRITICO}
   \<and> map (\<lambda>(d, w). classify (row_of d w)) (List.product [-1, 0, 30, 31, 60, 61, 90, 91] [0, 1, 6])
     = [ALTO, CRITICO, CRITICO,
        ALTO, CRITICO, CRITICO,
        ALTO, CRITICO, CRITICO,
        MEDIO, MEDIO, ALTO,
        MEDIO, MEDIO, ALTO,
        MEDIO, MEDIO, MEDIO,
        MEDIO, MEDIO, MEDIO,
        BAJO, BAJO, BAJO]"
proof -
  have eq: "classify row = classify_spec (days_before_expiration row) (active_sow_workers row)"
    by (simp add: classify_def classify_spec_def spec_rules_def Let_def)
  have one: "classify row \<in> {BAJO, MEDIO, ALTO, CRITICO}"
    by (cases "classify row") simp_all
  have tbl: "map (\<lambda>(d, w). classify (row_of d w)) (List.product [-1, 0, 30, 31, 60, 61, 90, 91] [0, 1, 6])
     = [ALTO, CRITICO, CRITICO,
        ALTO, CRITICO, CRITICO,
        ALTO, CRITICO, CRITICO,
        MEDIO, MEDIO, ALTO,
        MEDIO, MEDIO, ALTO,
        MEDIO, MEDIO, MEDIO,
        MEDIO, MEDIO, MEDIO,
        BAJO, BAJO, BAJO]"
    by (simp add: classify_def row_of_def)
  from eq one tbl show ?thesis by blast
qed

subsection \<open>\<^verbatim>\<open>engineer_features\<close> and the encoders\<close>

lemma encode_cols_fitted_snd:
  "\<forall>c\<in>set cols. encs c \<noteq> None \<Longrightarrow> snd (encode_cols encs rs cols codes) = encs"
  by (induction cols arbitrary: codes) (auto split: option.splits sum.splits)

lemma encode_cols_fitted_unseen:
  "\<forall>c\<in>set cols. encs c \<noteq> None \<Longrightarrow> c \<in> set cols \<Longrightarrow> encs c = Some classes
   \<Longrightarrow> v \<in> set (str_column rs c) \<Longrightarrow> v \<notin> set classes
   \<Longrightarrow> fst (encode_cols encs rs cols codes) = Inl ValueError"
proof (induction cols arbitrary: codes)
  case Nil
  then show ?case by simp
next
  case (Cons a cols)
  then obtain cl where a: "encs a = Some cl" by auto
  show ?case
  proof (cases "le_transform cl (str_column rs a)")
    case (Inl e)
    then have "e = ValueError" by (auto simp: le_transform_def split: if_splits)
    with Inl a show ?thesis by simp
  next
    case (Inr cs)
    have "a \<noteq> c"
    proof
      assume "a = c"
      with a Cons.prems have "cl = classes" by simp
      with Inr Cons.prems \<open>a = c\<close> show False
        by (auto simp: le_transform_def list_all_iff split: if_splits)
    qed
    with Cons.prems have "c \<in> set cols" by simp
    with Cons a Inr show ?thesis by simp
  qed
qed




text \<open>
  C5, as amended. Once the four encoders are fitted, a categorical value that is not among
  the classes of its column's encoder makes \<^verbatim>\<open>engineer_features\<close> raise
  \<^verbatim>\<open>ValueError\<close>; the transform does not complete, no code is assigned to the value,
  and the encoders stay as they were.
\<close>

theorem unseen_category_raises_ValueError:
  assumes "df < length h"
    and "\<forall>c\<in>set categorical_cols. label_encoders self c \<noteq> None"
    and "col \<in> set categorical_cols"
    and "label_encoders self col = Some classes"
    and "v \<in> set (str_column (rows (h ! df)) col)"
    and "v \<notin> set classes"
  shows "fst (engineer_features self h df) = Inl ValueError
         \<and> label_encoders (fst (snd (engineer_features self h df))) = label_encoders self"
proof -
  let ?rs = "rows (h ! df)"
  let ?r = "encode_cols (label_encoders self) ?rs categorical_cols (\<lambda>_. [])"
  have f: "fst ?r = Inl ValueError"
    using assms by (intro encode_cols_fitted_unseen[where c = col and v = v and classes = classes]) auto
  have s: "snd ?r = label_encoders self"
    using assms(2) by (rule encode_cols_fitted_snd)
  obtain a b where ab: "?r = (a, b)" by (cases ?r)
  with f s have "a = Inl ValueError" "b = label_encoders self" by auto
  with ab show ?thesis
    by (simp add: engineer_features_def Let_def nth_append)
qed

theorem unseen_category_raises_ValueError_witness:
  "(1::nat) < length [example_frame ''Acme'' 28 3, example_frame ''Globex'' 28 3]
   \<and> fst (engineer_features (fst (snd (engineer_features fe_init [example_frame ''Acme'' 28 3] 0)))
            [example_frame ''Acme'' 28 3, example_frame ''Globex'' 28 3] 1) = Inl ValueError"
proof -
  let ?self = "fst (snd (engineer_features fe_init [example_frame ''Acme'' 28 3] 0))"
  let ?h = "[example_frame ''Acme'' 28 3, example_frame ''Globex'' 28 3]"
  have enc: "label_encoders ?self = [''supplier'' \<mapsto> [''Acme''], ''Business Unit'' \<mapsto> [''Ops''],
        ''Primary LOB'' \<mapsto> [''IT''], ''currency'' \<mapsto> [''USD'']]"
    by (simp add: engineer_features_def fe_init_def example_frame_def example_row_def
        categorical_cols_def le_fit_transform_def le_fit_def str_column_def Let_def)
  have 1: "(1::nat) < length ?h" by simp
  have 2: "\<forall>c\<in>set categorical_cols. label_encoders ?self c \<noteq> None"
    unfolding enc by (simp add: categorical_cols_def)
  have 3: "''supplier'' \<in> set categorical_cols" by (simp add: categorical_cols_def)
  have 4: "label_encoders ?self ''supplier'' = Some [''Acme'']" unfolding enc by simp
  have 5: "''Globex'' \<in> set (str_column (rows (?h ! 1)) ''supplier'')"
    by (simp add: str_column_def example_frame_def example_row_def)
  have 6: "''Globex'' \<notin> set [''Acme'']" by simp
  from unseen_category_raises_ValueError[OF 1 2 3 4 5 6] 1 show ?thesis by simp
qed

text \<open>
  Counterexample to C5: the encoders are fitted on a frame whose only supplier is Acme;
  a frame with the supplier Globex then raises.
\<close>

theorem unseen_category_counterexample:
  "fst (engineer_features (fst (snd (engineer_features fe_init [example_frame ''Acme'' 28 3] 0)))
            [example_frame ''Acme'' 28 3, example_frame ''Globex'' 28 3] 1) = Inl ValueError"
  by (simp add: engineer_features_def fe_init_def example_frame_def example_row_def
        categorical_cols_def le_fit_transform_def le_transform_def le_fit_def str_column_def Let_def)

subsection \<open>The scaler\<close>

text \<open>
  C3, as amended. Every successful call of \<^verbatim>\<open>prepare_for_training\<close> fits the scaler
  anew on the feature matrix of that call and stores the new statistics, whatever
  statistics the instance held before; the scaled matrix it returns is scaled with the
  new statistics.
\<close>

theorem prepare_for_training_refits_scaler:
  assumes "df < length h"
    and "prepare_for_training self h df = (Inr (X, y, r), self', h')"
  shows "\<exists>fs. engineered (h' ! r) = Some fs \<and> fs \<noteq> []
           \<and> scaler self' = Some (scaler_fit (map feature_vector fs))
           \<and> X = scaler_transform (scaler_fit (map feature_vector fs)) (map feature_vector fs)
           \<and> scaler (fst (snd (prepare_for_training (self\<lparr>scaler := s0\<rparr>) h df))) = scaler self'"
  using assms(2)
  by (auto simp: prepare_for_training_def create_criticality_label_def engineer_features_def
      scaler_fit_transform_def Let_def
      split: prod.splits sum.splits option.splits if_splits)

lemmas pipeline_eval =
  prepare_for_training_def create_criticality_label_def engineer_features_def
  scaler_fit_transform_def scaler_fit_def scaler_transform_def Let_def fe_init_def
  example_frame_def example_row_def categorical_cols_def le_fit_transform_def
  le_transform_def le_fit_def str_column_def feature_row_def feature_vector_def
  bool_int_def mean_def variance_def classify_def

lemma first_call_value:
  "first_call =
     (Inr ([[0, 0, 0, 0, 0, 0, 0, 0, 0, 0, 0, 0, 0, 0]], [ALTO], 2),
      \<lparr>label_encoders = [''supplier'' \<mapsto> [''Acme''], ''Business Unit'' \<mapsto> [''Ops''],
                         ''Primary LOB'' \<mapsto> [''IT''], ''currency'' \<mapsto> [''USD'']],
       scaler = Some \<lparr>scaler_mean = [28, 0, 1, 0, 0, 0, 0, 1 / 1000, 0, 0, 0, 0, 0, 0],
                      scaler_var = [0, 0, 0, 0, 0, 0, 0, 0, 0, 0, 0, 0, 0, 0],
                      scaler_scale = [1, 1, 1, 1, 1, 1, 1, 1, 1, 1, 1, 1, 1, 1]\<rparr>\<rparr>,
      [(example_frame ''Acme'' 28 0)\<lparr>Criticality := Some [ALTO]\<rparr>,
       example_frame ''Acme'' 100 0,
       (example_frame ''Acme'' 28 0)
         \<lparr>Criticality := Some [ALTO],
          engineered := Some [\<lparr>days_to_expire = 28, is_expired = 0, is_critical_window = 1,
             is_high_priority_window = 0, has_workers = 0, worker_count = 0,
             worker_criticality_score = 0, budget_normalized = 1 / 1000,
             budget_per_worker = 0, risk_score = 0, supplier_encoded = 0,
             business_unit_encoded = 0, primary_lob_encoded = 0, currency_encoded = 0\<rparr>]\<rparr>])"
  by (simp add: first_call_def two_frames_def pipeline_eval numeral_2_eq_2)

theorem prepare_for_training_refits_scaler_witness:
  "(0::nat) < length two_frames
   \<and> fst first_call = Inr ([[0, 0, 0, 0, 0, 0, 0, 0, 0, 0, 0, 0, 0, 0]], [ALTO], 2)
   \<and> (\<exists>fs. engineered (snd (snd first_call) ! 2) = Some fs
         \<and> scaler (fst (snd first_call)) = Some (scaler_fit (map feature_vector fs)))"
proof -
  have 1: "(0::nat) < length two_frames" by (simp add: two_frames_def)
  obtain s h' where 2: "prepare_for_training fe_init two_frames 0
      = (Inr ([[0, 0, 0, 0, 0, 0, 0, 0, 0, 0, 0, 0, 0, 0]], [ALTO], 2), s, h')"
    using first_call_value unfolding first_call_def by blast
  from prepare_for_training_refits_scaler[OF 1 2] 1 2 show ?thesis
    unfolding first_call_def by auto
qed

text \<open>
  Counterexample to C3: after the first call the stored mean of \<^verbatim>\<open>days_to_expire\<close> is
  28; the second call on the same instance replaces it by 100.
\<close>

theorem scaler_refit_counterexample:
  "map_option scaler_mean (scaler (fst (snd first_call)))
     = Some [28, 0, 1, 0, 0, 0, 0, 1 / 1000, 0, 0, 0, 0, 0, 0]
   \<and> map_option scaler_mean (scaler (fst (snd second_call)))
     = Some [100, 0, 0, 0, 0, 0, 0, 1 / 1000, 0, 0, 0, 0, 0, 0]"
proof -
  have a: "map_option scaler_mean (scaler (fst (snd first_call)))
     = Some [28, 0, 1, 0, 0, 0, 0, 1 / 1000, 0, 0, 0, 0, 0, 0]"
    by (simp add: first_call_value)
  have b: "map_option scaler_mean (scaler (fst (snd second_call)))
     = Some [100, 0, 0, 0, 0, 0, 0, 1 / 1000, 0, 0, 0, 0, 0, 0]"
    unfolding second_call_def first_call_value
    by (simp add: pipeline_eval)
  from a b show ?thesis by simp
qed

subsection \<open>Which DataFrame objects are changed\<close>

text \<open>
  C10. \<^verbatim>\<open>create_criticality_label\<close> returns the reference it was given and changes
  the object behind it, adding the column \<^verbatim>\<open>'Criticality'\<close> with the label of every
  row, and changes no other object; \<^verbatim>\<open>engineer_features\<close> leaves every object that
  existed before the call as it was, and what it returns is a new object with the same
  input columns; so after \<^verbatim>\<open>prepare_for_training\<close> the caller's frame has the column
  \<^verbatim>\<open>'Criticality'\<close>.
\<close>

theorem frame_effects:
  assumes "df < length h"
  shows "snd (create_criticality_label h df) = df
    \<and> fst (create_criticality_label h df) ! df
        = (h ! df)\<lparr>Criticality := Some (map classify (rows (h ! df)))\<rparr>
    \<and> (\<forall>r < length h. r \<noteq> df \<longrightarrow> fst (create_criticality_label h df) ! r = h ! r)
    \<and> (\<forall>r < length h. snd (snd (engineer_features self h df)) ! r = h ! r)
    \<and> (\<forall>r. fst (engineer_features self h df) = Inr r \<longrightarrow>
          r = length h \<and> r \<noteq> df
          \<and> rows (snd (snd (engineer_features self h df)) ! r) = rows (h ! df)
          \<and> Criticality (snd (snd (engineer_features self h df)) ! r) = Criticality (h ! df))
    \<and> Criticality (snd (snd (prepare_for_training self h df)) ! df)
        = Some (map classify (rows (h ! df)))"
proof -
  have 1: "snd (create_criticality_label h df) = df"
    by (simp add: create_criticality_label_def)
  have 2: "fst (create_criticality_label h df) ! df
        = (h ! df)\<lparr>Criticality := Some (map classify (rows (h ! df)))\<rparr>"
    using assms by (simp add: create_criticality_label_def)
  have 3: "\<forall>r < length h. r \<noteq> df \<longrightarrow> fst (create_criticality_label h df) ! r = h ! r"
    by (simp add: create_criticality_label_def)
  have 4: "\<forall>r < length h. snd (snd (engineer_features self h df)) ! r = h ! r"
    by (auto simp: engineer_features_def Let_def nth_append split: prod.splits sum.splits)
  have 5: "\<forall>r. fst (engineer_features self h df) = Inr r \<longrightarrow>
          r = length h \<and> r \<noteq> df
          \<and> rows (snd (snd (engineer_features self h df)) ! r) = rows (h ! df)
          \<and> Criticality (snd (snd (engineer_features self h df)) ! r) = Criticality (h ! df)"
    using assms
    by (auto simp: engineer_features_def Let_def nth_append split: prod.splits sum.splits)
  have 6: "Criticality (snd (snd (prepare_for_training self h df)) ! df)
        = Some (map classify (rows (h ! df)))"
    using assms
    by (auto simp: prepare_for_training_def create_criticality_label_def engineer_features_def
        Let_def nth_append split: prod.splits sum.splits option.splits)
  from 1 2 3 4 5 6 show ?thesis by blast
qed

theorem frame_effects_witness:
  "(0::nat) < length [example_frame ''Acme'' 28 3]
   \<and> Criticality (fst (create_criticality_label [example_frame ''Acme'' 28 3] 0) ! 0) = Some [CRITICO]
   \<and> snd (snd (engineer_features fe_init [example_frame ''Acme'' 28 3] 0)) ! 0 = example_frame ''Acme'' 28 3
   \<and> fst (engineer_features fe_init [example_frame ''Acme'' 28 3] 0) = Inr 1
   \<and> Criticality (snd (snd (prepare_for_training fe_init [example_frame ''Acme'' 28 3] 0)) ! 0) = Some [CRITICO]"
proof -
  have 1: "(0::nat) < length [example_frame ''Acme'' 28 3]" by simp
  have c: "map classify (rows ([example_frame ''Acme'' 28 3] ! 0)) = [CRITICO]"
    by (simp add: example_frame_def example_row_def classify_def)
  have e: "fst (engineer_features fe_init [example_frame ''Acme'' 28 3] 0) = Inr 1"
    by (simp add: engineer_features_def fe_init_def example_frame_def example_row_def
        categorical_cols_def le_fit_transform_def le_fit_def str_column_def Let_def)
  from frame_effects[OF 1, of fe_init] c e 1 show ?thesis by simp
qed

subsection \<open>The stratified split\<close>

lemma classes_twice_length:
  assumes "\<forall>c\<in>set y. 2 \<le> count_list y c"
  shows "2 * card (set y) \<le> length y"
proof -
  have "2 * card (set y) = (\<Sum>c\<in>set y. 2)" by simp
  also have "\<dots> \<le> (\<Sum>c\<in>set y. count_list y c)"
    using assms by (intro sum_mono) simp
  also have "\<dots> = length y"
    by (rule sum_count_set) simp_all
  finally show ?thesis .
qed

lemma split_underpopulated:
  assumes "c \<in> set y" and "count_list y c < 2"
  shows "train_test_split y = Inl ValueError"
proof -
  from assms have "list_ex (\<lambda>c. count_list y c < 2) (remdups y)"
    by (auto simp: list_ex_iff)
  then show ?thesis by (simp add: train_test_split_def Let_def)
qed

lemma split_populated:
  assumes "y \<noteq> []" and "\<forall>c\<in>set y. 2 \<le> count_list y c"
  shows "train_test_split y =
           (if n_test_of (length y) < card (set y) then Inl ValueError
            else Inr (length y - n_test_of (length y), n_test_of (length y)))"
proof -
  let ?n = "length y" and ?k = "card (set y)"
  have k: "2 * ?k \<le> ?n" using assms(2) by (rule classes_twice_length)
  have k1: "1 \<le> ?k" using assms(1) by (simp add: Suc_le_eq card_gt_0_iff)
  have tr: "?k \<le> ?n - n_test_of ?n" using k k1 unfolding n_test_of_def by arith
  have nex: "\<not> list_ex (\<lambda>c. count_list y c < 2) (remdups y)"
    using assms(2) by (auto simp: list_ex_iff not_less)
  have len: "length (remdups y) = ?k" by (simp add: length_remdups_card_conv)
  from tr k1 have "?n - n_test_of ?n \<noteq> 0" by arith
  with tr nex len show ?thesis
    by (simp add: train_test_split_def Let_def)
qed

text \<open>
  C6, as amended. The split raises \<^verbatim>\<open>ValueError\<close> whenever some class of the label
  vector has fewer than 2 members. When every class has at least 2 members it raises
  \<^verbatim>\<open>ValueError\<close> exactly when the test part, a fifth of the rows rounded up, has fewer
  rows than there are classes, and otherwise returns the two parts; so for four classes
  with at least 2 members each it raises exactly when there are fewer than 16 rows.
\<close>

theorem stratified_split_failure:
  "((\<exists>c\<in>set y. count_list y c < 2) \<longrightarrow> train_test_split y = Inl ValueError)
   \<and> (y \<noteq> [] \<and> (\<forall>c\<in>set y. 2 \<le> count_list y c) \<longrightarrow>
        train_test_split y =
          (if n_test_of (length y) < card (set y) then Inl ValueError
           else Inr (length y - n_test_of (length y), n_test_of (length y))))
   \<and> (card (set y) = 4 \<and> (\<forall>c\<in>set y. 2 \<le> count_list y c) \<longrightarrow>
        (train_test_split y = Inl ValueError \<longleftrightarrow> length y < 16))"
proof (intro conjI impI)
  assume "\<exists>c\<in>set y. count_list y c < 2"
  then show "train_test_split y = Inl ValueError" by (auto intro: split_underpopulated)
next
  assume "y \<noteq> [] \<and> (\<forall>c\<in>set y. 2 \<le> count_list y c)"
  then show "train_test_split y =
          (if n_test_of (length y) < card (set y) then Inl ValueError
           else Inr (length y - n_test_of (length y), n_test_of (length y)))"
    using split_populated[of y] by blast
next
  assume a: "card (set y) = 4 \<and> (\<forall>c\<in>set y. 2 \<le> count_list y c)"
  then have "y \<noteq> []" by auto
  with a have "train_test_split y =
          (if n_test_of (length y) < 4 then Inl ValueError
           else Inr (length y - n_test_of (length y), n_test_of (length y)))"
    using split_populated[of y] by simp
  moreover have "n_test_of (length y) < 4 \<longleftrightarrow> length y < 16"
    unfolding n_test_of_def by arith
  ultimately show "train_test_split y = Inl ValueError \<longleftrightarrow> length y < 16" by simp
qed

theorem stratified_split_failure_witness:
  "card (set eight_labels) = 4 \<and> list_all (\<lambda>c. 2 \<le> count_list eight_labels c) eight_labels
   \<and> length eight_labels < 16 \<and> train_test_split eight_labels = Inl ValueError"
proof -
  have 1: "card (set eight_labels) = 4" by (simp add: eight_labels_def)
  have 2: "\<forall>c\<in>set eight_labels. 2 \<le> count_list eight_labels c" by (simp add: eight_labels_def)
  have 3: "length eight_labels < 16" by (simp add: eight_labels_def)
  have 4: "list_all (\<lambda>c. 2 \<le> count_list eight_labels c) eight_labels"
    using 2 by (simp add: list_all_iff)
  from stratified_split_failure[of eight_labels] 1 2 3 4 show ?thesis by blast
qed

text \<open>
  Counterexample to C6: four classes with two members each; the test part would have 2
  rows for 4 classes, and the split raises.
\<close>

theorem split_four_classes_counterexample:
  "train_test_split [BAJO, BAJO, MEDIO, MEDIO, ALTO, ALTO, CRITICO, CRITICO] = Inl ValueError"
  by (simp add: train_test_split_def n_test_of_def Let_def)

subsection \<open>Saving and loading the classifier\<close>

lemmas os_eval =
  example_os_def fs_makedirs_def fs_write_def fs_read_def dirname_def Let_def

text \<open>
  The calls of \<^verbatim>\<open>save_model\<close> at the script's path in the example file system,
  starting without any file.
\<close>

lemma model_path_dirname: "dirname model_path = ''/app/models''"
  by (simp add: dirname_def model_path_def)

lemma model_path_metrics: "replace_pkl model_path = ''/app/models/criticality_model_metrics.json''"
  by (simp add: model_path_def)

lemma model_path_makedirs:
  "makedirs example_os (dirname model_path) Map.empty
     = (Inr (), [''/app'' \<mapsto> Directory, ''/app/models'' \<mapsto> Directory])"
  by (simp add: model_path_dirname example_os_def fs_makedirs_def)

lemma model_path_write:
  "write_file example_os model_path c [''/app'' \<mapsto> Directory, ''/app/models'' \<mapsto> Directory]
     = (Inr (), [''/app'' \<mapsto> Directory, ''/app/models'' \<mapsto> Directory, model_path \<mapsto> Regular c])"
  by (simp add: example_os_def fs_write_def model_path_dirname) (simp add: model_path_def)

lemma metrics_path_write:
  "write_file example_os (replace_pkl model_path) c'
      [''/app'' \<mapsto> Directory, ''/app/models'' \<mapsto> Directory, model_path \<mapsto> Regular c]
     = (Inr (), [''/app'' \<mapsto> Directory, ''/app/models'' \<mapsto> Directory, model_path \<mapsto> Regular c,
                 replace_pkl model_path \<mapsto> Regular c'])"
  unfolding model_path_metrics
  by (simp add: example_os_def fs_write_def dirname_def model_path_def)

text \<open>
  In the example file system \<^verbatim>\<open>save_model\<close> fails on a path that ends in a slash,
  on a path with \<^verbatim>\<open>.pkl\<close> in its directory part (after the package is written), on
  a regular file where the directory is to be, and on a path without a directory part.
\<close>

lemma save_model_error_paths:
  "fst (save_model example_os self ''models/'' Map.empty) = Inl IsADirectoryError"
  "fst (save_model example_os self ''a.pkl/m.pkl'' Map.empty) = Inl FileNotFoundError"
  "fst (save_model example_os self model_path [''/app/models'' \<mapsto> Regular c]) = Inl FileExistsError"
  "fst (save_model example_os self ''model.pkl'' Map.empty) = Inl FileNotFoundError"
     apply (simp add: save_model_def os_eval)
    apply (simp add: save_model_def os_eval)
   apply (simp add: save_model_def model_path_dirname example_os_def fs_makedirs_def)
  apply (simp add: save_model_def os_eval)
  done

lemma model_path_read:
  "read_file example_os model_path
     [''/app'' \<mapsto> Directory, ''/app/models'' \<mapsto> Directory, model_path \<mapsto> Regular c,
      replace_pkl model_path \<mapsto> Regular c'] = Inr c"
  unfolding model_path_metrics
  by (simp add: example_os_def fs_read_def model_path_def)

text \<open>
  C7, as amended. \<^verbatim>\<open>save_model\<close> does not look at whether the classifier has been
  trained. For a classifier as \<^verbatim>\<open>__init__\<close> leaves it, whenever the creation of the
  directory and the two writes succeed, \<^verbatim>\<open>save_model\<close> succeeds, and what it has
  written is a package whose model is \<^verbatim>\<open>None\<close> and an empty metrics record; and
  when it fails, the exception is the one of these three calls.
\<close>

theorem save_model_untrained_succeeds:
  "(makedirs os (dirname filepath) fs = (Inr (), fs1)
    \<and> write_file os filepath
          (Pickle \<lparr>pkg_model = None, pkg_model_type = mt, pkg_training_date = None,
                   pkg_metrics = [], pkg_feature_names = None\<rparr>) fs1 = (Inr (), fs2)
    \<and> write_file os (replace_pkl filepath) (Json []) fs2 = (Inr (), fs3)
    \<longrightarrow> save_model os (classifier_init mt) filepath fs = (Inr (), fs3))
   \<and> (fst (save_model os (classifier_init mt) filepath fs) = Inl e
    \<longrightarrow> fst (makedirs os (dirname filepath) fs) = Inl e
        \<or> fst (write_file os filepath
                 (Pickle \<lparr>pkg_model = None, pkg_model_type = mt, pkg_training_date = None,
                          pkg_metrics = [], pkg_feature_names = None\<rparr>)
                 (snd (makedirs os (dirname filepath) fs))) = Inl e
        \<or> (\<exists>fs2. fst (write_file os (replace_pkl filepath) (Json []) fs2) = Inl e))"
proof (intro conjI impI)
  assume "makedirs os (dirname filepath) fs = (Inr (), fs1)
    \<and> write_file os filepath
          (Pickle \<lparr>pkg_model = None, pkg_model_type = mt, pkg_training_date = None,
                   pkg_metrics = [], pkg_feature_names = None\<rparr>) fs1 = (Inr (), fs2)
    \<and> write_file os (replace_pkl filepath) (Json []) fs2 = (Inr (), fs3)"
  then show "save_model os (classifier_init mt) filepath fs = (Inr (), fs3)"
    by (simp add: save_model_def classifier_init_def)
next
  assume a: "fst (save_model os (classifier_init mt) filepath fs) = Inl e"
  obtain r1 fs1 where m: "makedirs os (dirname filepath) fs = (r1, fs1)"
    by (cases "makedirs os (dirname filepath) fs")
  obtain r2 fs2 where w: "write_file os filepath
                 (Pickle \<lparr>pkg_model = None, pkg_model_type = mt, pkg_training_date = None,
                          pkg_metrics = [], pkg_feature_names = None\<rparr>) fs1 = (r2, fs2)"
    by (cases "write_file os filepath
                 (Pickle \<lparr>pkg_model = None, pkg_model_type = mt, pkg_training_date = None,
                          pkg_metrics = [], pkg_feature_names = None\<rparr>) fs1")
  show "fst (makedirs os (dirname filepath) fs) = Inl e
        \<or> fst (write_file os filepath
                 (Pickle \<lparr>pkg_model = None, pkg_model_type = mt, pkg_training_date = None,
                          pkg_metrics = [], pkg_feature_names = None\<rparr>)
                 (snd (makedirs os (dirname filepath) fs))) = Inl e
        \<or> (\<exists>fs2. fst (write_file os (replace_pkl filepath) (Json []) fs2) = Inl e)"
  proof (cases r1)
    case (Inl e1)
    with a m show ?thesis by (simp add: save_model_def)
  next
    case r1: (Inr u)
    show ?thesis
    proof (cases r2)
      case (Inl e2)
      with a m w r1 show ?thesis by (simp add: save_model_def classifier_init_def)
    next
      case (Inr v)
      with a m w r1 have "fst (write_file os (replace_pkl filepath) (Json []) fs2) = Inl e"
        by (simp add: save_model_def classifier_init_def)
      then show ?thesis by blast
    qed
  qed
qed

theorem save_model_untrained_succeeds_witness:
  "save_model example_os (classifier_init ''random_forest'') model_path Map.empty
     = (Inr (),
        [''/app'' \<mapsto> Directory, ''/app/models'' \<mapsto> Directory,
         model_path \<mapsto> Regular (Pickle \<lparr>pkg_model = None, pkg_model_type = ''random_forest'',
             pkg_training_date = None, pkg_metrics = [], pkg_feature_names = None\<rparr>),
         replace_pkl model_path \<mapsto> Regular (Json [])])"
  using save_model_untrained_succeeds[of example_os model_path Map.empty
      "[''/app'' \<mapsto> Directory, ''/app/models'' \<mapsto> Directory]" "''random_forest''"
      "[''/app'' \<mapsto> Directory, ''/app/models'' \<mapsto> Directory,
         model_path \<mapsto> Regular (Pickle \<lparr>pkg_model = None, pkg_model_type = ''random_forest'',
             pkg_training_date = None, pkg_metrics = [], pkg_feature_names = None\<rparr>)]"
      "[''/app'' \<mapsto> Directory, ''/app/models'' \<mapsto> Directory,
         model_path \<mapsto> Regular (Pickle \<lparr>pkg_model = None, pkg_model_type = ''random_forest'',
             pkg_training_date = None, pkg_metrics = [], pkg_feature_names = None\<rparr>),
         replace_pkl model_path \<mapsto> Regular (Json [])]"]
    model_path_makedirs model_path_write metrics_path_write
  by simp

text \<open>
  Counterexample to C7: saving the untrained classifier to the script's path succeeds,
  and the file at the path holds a package whose model is \<^verbatim>\<open>None\<close>.
\<close>

theorem save_untrained_counterexample:
  "fst (save_model example_os (classifier_init ''random_forest'') model_path Map.empty) = Inr ()
   \<and> read_file example_os model_path
        (snd (save_model example_os (classifier_init ''random_forest'') model_path Map.empty))
       = Inr (Pickle \<lparr>pkg_model = None, pkg_model_type = ''random_forest'',
             pkg_training_date = None, pkg_metrics = [], pkg_feature_names = None\<rparr>)"
  by (simp add: save_model_def classifier_init_def model_path_makedirs model_path_write
      metrics_path_write)
     (simp add: example_os_def fs_read_def model_path_metrics, simp add: model_path_def)

text \<open>
  C8, as amended. The package that \<^verbatim>\<open>save_model\<close> writes holds the model, the model
  type, the training date, the metrics and the feature names, and the metrics are also
  written to the metrics file; the feature engineer is not part of the package. When the
  creation of the directory and the two writes succeed and the file at the path reads
  back as the package written, \<^verbatim>\<open>load_model\<close> returns a classifier with the same
  model, model type, training date and metrics, and with \<^verbatim>\<open>feature_engineer\<close>
  equal to \<^verbatim>\<open>None\<close> (for metrics with the key \<^verbatim>\<open>test_accuracy\<close>).
\<close>

theorem save_load_roundtrip:
  assumes "makedirs os (dirname filepath) fs = (Inr (), fs1)"
    and "write_file os filepath
           (Pickle \<lparr>pkg_model = model self, pkg_model_type = model_type self,
                    pkg_training_date = training_date self, pkg_metrics = metrics self,
                    pkg_feature_names =
                      (case model self of None \<Rightarrow> None | Some m \<Rightarrow> feature_names_in m)\<rparr>) fs1
         = (Inr (), fs2)"
    and "write_file os (replace_pkl filepath) (Json (metrics self)) fs2 = (Inr (), fs3)"
    and "read_file os filepath fs3
         = Inr (Pickle \<lparr>pkg_model = model self, pkg_model_type = model_type self,
                    pkg_training_date = training_date self, pkg_metrics = metrics self,
                    pkg_feature_names =
                      (case model self of None \<Rightarrow> None | Some m \<Rightarrow> feature_names_in m)\<rparr>)"
    and "map_of (metrics self) ''test_accuracy'' = Some acc"
  shows "save_model os self filepath fs = (Inr (), fs3)
         \<and> load_model os filepath fs3 = Inr (self\<lparr>feature_engineer := None\<rparr>)"
  using assms
  by (simp add: save_model_def load_model_def classifier_init_def)

theorem save_load_roundtrip_witness:
  "map_of (metrics trained_example) ''test_accuracy'' = Some (9 / 10)
   \<and> fst (save_model example_os trained_example model_path Map.empty) = Inr ()
   \<and> load_model example_os model_path
        (snd (save_model example_os trained_example model_path Map.empty))
       = Inr (trained_example\<lparr>feature_engineer := None\<rparr>)"
proof -
  have 5: "map_of (metrics trained_example) ''test_accuracy'' = Some (9 / 10)"
    by (simp add: trained_example_def)
  from save_load_roundtrip[OF model_path_makedirs model_path_write metrics_path_write
      model_path_read 5] 5
  show ?thesis by simp
qed

text \<open>
  Counterexample to C8: the classifier that is saved holds a feature engineer; the
  classifier that is loaded holds none.
\<close>

theorem artifact_without_feature_engineer_counterexample:
  "feature_engineer trained_example = Some fe_init
   \<and> map_sum id feature_engineer (save_then_load example_os trained_example model_path Map.empty)
       = Inr None"
proof -
  have s: "save_model example_os trained_example model_path Map.empty
     = (Inr (),
        [''/app'' \<mapsto> Directory, ''/app/models'' \<mapsto> Directory,
         model_path \<mapsto> Regular (Pickle \<lparr>pkg_model = model trained_example,
             pkg_model_type = model_type trained_example,
             pkg_training_date = training_date trained_example,
             pkg_metrics = metrics trained_example,
             pkg_feature_names =
               (case model trained_example of None \<Rightarrow> None | Some m \<Rightarrow> feature_names_in m)\<rparr>),
         replace_pkl model_path \<mapsto> Regular (Json (metrics trained_example))])"
    by (simp add: save_model_def model_path_makedirs model_path_write metrics_path_write)
  have t: "map_of (metrics trained_example) ''test_accuracy'' = Some (9 / 10)"
    by (simp add: trained_example_def)
  have f: "feature_engineer trained_example = Some fe_init"
    by (simp add: trained_example_def)
  show ?thesis
    unfolding save_then_load_def s
    by (simp add: load_model_def model_path_read classifier_init_def t f)
qed

subsection \<open>The feature importances\<close>

lemma rev_descending:
  assumes "sorted (map (\<lambda>i. xs ! i) idxs)"
  shows "sorted_wrt (\<lambda>a b. xs ! b \<le> xs ! a) (rev idxs)"
  using assms by (simp add: sorted_wrt_rev sorted_map)

lemma top_indices_length:
  "is_argsort xs (argsort xs) \<Longrightarrow> length (top_indices argsort xs k) = min k (length xs)"
proof -
  assume a: "is_argsort xs (argsort xs)"
  then have d: "distinct (argsort xs)" and s: "set (argsort xs) = {..<length xs}"
    by (simp_all add: is_argsort_def)
  have "length (argsort xs) = card (set (argsort xs))"
    using distinct_card[OF d] by (rule sym)
  also have "\<dots> = length xs" unfolding s by simp
  finally show ?thesis by (simp add: top_indices_def min.commute)
qed

lemma top_indices_distinct:
  "is_argsort xs (argsort xs) \<Longrightarrow> distinct (top_indices argsort xs k)"
  by (simp add: top_indices_def is_argsort_def)

lemma top_indices_set:
  "is_argsort xs (argsort xs) \<Longrightarrow> set (top_indices argsort xs k) \<subseteq> {..<length xs}"
  using set_take_subset[of k "rev (argsort xs)"] by (simp add: top_indices_def is_argsort_def)

lemma top_indices_descending:
  "is_argsort xs (argsort xs) \<Longrightarrow> sorted_wrt (\<lambda>a b. xs ! b \<le> xs ! a) (top_indices argsort xs k)"
  unfolding top_indices_def
  by (rule sorted_wrt_take) (simp add: rev_descending is_argsort_def)

lemma top_indices_top:
  assumes "is_argsort xs (argsort xs)"
    and "a \<in> set (top_indices argsort xs k)" and "b < length xs"
    and "b \<notin> set (top_indices argsort xs k)"
  shows "xs ! b \<le> xs ! a"
proof -
  let ?L = "rev (argsort xs)"
  have "b \<in> set ?L" using assms(1,3) by (simp add: is_argsort_def)
  then have "b \<in> set (take k ?L) \<union> set (drop k ?L)"
    unfolding set_append[symmetric] by (simp only: append_take_drop_id)
  with assms(4) have b: "b \<in> set (drop k ?L)" by (auto simp: top_indices_def)
  have "sorted_wrt (\<lambda>a b. xs ! b \<le> xs ! a) (take k ?L @ drop k ?L)"
    using assms(1) by (simp add: rev_descending is_argsort_def)
  then show ?thesis
    using assms(2) b unfolding sorted_wrt_append top_indices_def by blast
qed

lemma example_argsort_is_argsort: "is_argsort xs (example_argsort xs)"
proof -
  have "sorted (map (\<lambda>i. xs ! i) (sort_key (\<lambda>i. xs ! i) [0..<length xs]))"
    by (rule sorted_sort_key)
  moreover have "set (sort_key (\<lambda>i. xs ! i) [0..<length xs]) = {..<length xs}"
    by auto
  ultimately show ?thesis
    by (simp add: is_argsort_def example_argsort_def)
qed

text \<open>
  C9, as amended. For a trained classifier and as many names as importances,
  \<^verbatim>\<open>_print_feature_importance\<close> lists the \<^verbatim>\<open>top_n\<close> features (10 unless given) of
  highest importance, or all of them when there are fewer, each once, with its rank, name
  and importance, in descending order of importance; every feature left out has an
  importance no higher than any listed one. The order of features of equal importance
  is the one \<^verbatim>\<open>np.argsort\<close> happens to give, reversed, and is not fixed.
\<close>

theorem feature_importance_order:
  assumes "model self = Some m"
    and "length feature_names = length (feature_importances m)"
    and "is_argsort (feature_importances m) (argsort (feature_importances m))"
  shows "print_feature_importance argsort self feature_names top_n
           = Inr (map (\<lambda>(i, idx). (i, feature_names ! idx, feature_importances m ! idx))
                    (enumerate 1 (top_indices argsort (feature_importances m) top_n)))
     \<and> length (top_indices argsort (feature_importances m) top_n)
         = min top_n (length (feature_importances m))
     \<and> distinct (top_indices argsort (feature_importances m) top_n)
     \<and> set (top_indices argsort (feature_importances m) top_n)
         \<subseteq> {..<length (feature_importances m)}
     \<and> sorted_wrt (\<lambda>a b. feature_importances m ! b \<le> feature_importances m ! a)
         (top_indices argsort (feature_importances m) top_n)
     \<and> (\<forall>a\<in>set (top_indices argsort (feature_importances m) top_n).
          \<forall>b < length (feature_importances m).
           b \<notin> set (top_indices argsort (feature_importances m) top_n)
           \<longrightarrow> feature_importances m ! b \<le> feature_importances m ! a)"
proof -
  let ?imp = "feature_importances m"
  let ?top = "top_indices argsort ?imp top_n"
  note a = assms(3)
  have ok: "\<not> list_ex (\<lambda>idx. length feature_names \<le> idx \<or> length ?imp \<le> idx) ?top"
    using top_indices_set[where argsort = argsort, OF a, of top_n] assms(2) by (auto simp: list_ex_iff)
  have 1: "print_feature_importance argsort self feature_names top_n
           = Inr (map (\<lambda>(i, idx). (i, feature_names ! idx, ?imp ! idx)) (enumerate 1 ?top))"
    using assms(1) ok by (simp add: print_feature_importance_def Let_def)
  have 6: "\<forall>a\<in>set ?top. \<forall>b < length ?imp. b \<notin> set ?top \<longrightarrow> ?imp ! b \<le> ?imp ! a"
    using top_indices_top[where argsort = argsort, OF a] by blast
  from 1 top_indices_length[where argsort = argsort, OF a, of top_n] top_indices_distinct[where argsort = argsort, OF a, of top_n]
    top_indices_set[where argsort = argsort, OF a, of top_n] top_indices_descending[where argsort = argsort, OF a, of top_n] 6
  show ?thesis by blast
qed

theorem feature_importance_order_witness:
  "model trained_example = Some example_estimator
   \<and> length get_feature_columns = length (feature_importances example_estimator)
   \<and> is_argsort (feature_importances example_estimator)
        (example_argsort (feature_importances example_estimator))
   \<and> length (top_indices example_argsort (feature_importances example_estimator) 10) = 10
   \<and> distinct (top_indices example_argsort (feature_importances example_estimator) 10)"
proof -
  have 1: "model trained_example = Some example_estimator" by (simp add: trained_example_def)
  have 2: "length get_feature_columns = length (feature_importances example_estimator)"
    by (simp add: get_feature_columns_def example_estimator_def)
  have 3: "is_argsort (feature_importances example_estimator)
        (example_argsort (feature_importances example_estimator))"
    by (rule example_argsort_is_argsort)
  have 4: "length (feature_importances example_estimator) = 14"
    by (simp add: example_estimator_def)
  from feature_importance_order[where argsort = example_argsort, OF 1 2 3, of 10] 1 2 3 4
  show ?thesis by simp
qed

lemma example_top_indices:
  "top_indices example_argsort (feature_importances example_estimator) 10
     = [0, 7, 2, 9, 8, 5, 6, 4, 10, 1]"
  by (simp add: top_indices_def example_argsort_def example_estimator_def upt_conv_Cons)

text \<open>
  Counterexample to C9: of the fourteen features, whose importances all differ, only the
  ten of highest importance are listed.
\<close>

theorem feature_importance_counterexample:
  "length get_feature_columns = 14
   \<and> print_feature_importance example_argsort trained_example get_feature_columns 10
     = Inr [(1, ''days_to_expire'', 250 / 1000), (2, ''budget_normalized'', 150 / 1000),
            (3, ''is_critical_window'', 120 / 1000), (4, ''risk_score'', 100 / 1000),
            (5, ''budget_per_worker'', 90 / 1000), (6, ''worker_count'', 80 / 1000),
            (7, ''worker_criticality_score'', 70 / 1000), (8, ''has_workers'', 60 / 1000),
            (9, ''supplier_encoded'', 40 / 1000), (10, ''is_expired'', 30 / 1000)]"
proof -
  have m: "model trained_example = Some example_estimator" by (simp add: trained_example_def)
  have l: "length get_feature_columns = 14" by (simp add: get_feature_columns_def)
  have li: "length (feature_importances example_estimator) = 14"
    by (simp add: example_estimator_def)
  have p: "print_feature_importance example_argsort trained_example get_feature_columns 10
     = Inr (map (\<lambda>(i, idx). (i, get_feature_columns ! idx,
                               feature_importances example_estimator ! idx))
              (enumerate 1 [0, 7, 2, 9, 8, 5, 6, 4, 10, 1]))"
    by (simp add: print_feature_importance_def m example_top_indices l li Let_def)
  show ?thesis
    unfolding p
    by (simp add: l enumerate_eq_zip upt_conv_Cons get_feature_columns_def example_estimator_def)
qed

end
